theory Spec2Isabelle
  imports Main
begin

section \<open>Schedule record model\<close>

text \<open>
  The records of the schedule listing, field by field as the Go structs declare them.
  Field names are global in a theory, so the \<open>Progs\<close> field of \<open>Scd\<close> and of
  \<open>Station\<close> carry the name of their struct in front.
\<close>

record Prog =
  Ft :: string
  To :: string
  Ftl :: string
  Tol :: string
  Dur :: string
  Title :: string
  SubTitle :: string
  Desc :: string
  Pfm :: string
  Info :: string
  URL :: string

record Progs =
  Date :: string
  Progs :: "Prog list"

record Scd =
  ScdProgs :: Progs

record Station =
  ID :: string
  Name :: string
  Scd :: Scd
  StationProgs :: Progs

text \<open>
  \<open>stationsData\<close> is the decoded response; only the station sequence is data, the
  \<open>XMLName\<close> fields are decoding markers.
\<close>

record stationsData =
  XMLStations_Stations :: "Station list"

section \<open>Errors and outcomes\<close>

text \<open>
  Go errors as values. \<open>ErrProgramNotFound\<close> is the package-level variable the
  exact-start lookup returns. \<open>ErrorsNew msg\<close> is a value built by
  \<open>errors.New(msg)\<close> at the return site: it has no name a caller could compare
  against, only its message. \<open>NumError\<close> is \<open>*strconv.NumError\<close> with its
  \<open>Func\<close>, \<open>Num\<close> and \<open>Err\<close> fields. \<open>External\<close> stands for any error that
  the transport, the reader, the decoder or the playlist parser hands back.
\<close>

datatype numerr = ErrSyntax | ErrRange

datatype error =
    ErrProgramNotFound
  | ErrorsNew string
  | NumError string string numerr
  | External string

text \<open>A call either returns or panics (a run-time panic of the Go program).\<close>

datatype 'a outcome = Returns 'a | Panics string

section \<open>strconv.Atoi\<close>

text \<open>
  \<open>strconv.Atoi\<close> of the Go standard library, for the 64-bit \<open>int\<close>: an optional
  sign, then at least one decimal digit and nothing else. \<open>ParseUint\<close> reads the
  digits left to right and reports a range error as soon as the value leaves
  64 bits, a syntax error at the first byte that is not a digit; \<open>ParseInt\<close> then
  checks the signed range.
\<close>

definition intSize :: nat where
  "intSize = 64"

definition isDigit :: "char \<Rightarrow> bool" where
  "isDigit c = (48 \<le> (of_char c :: nat) \<and> (of_char c :: nat) \<le> 57)"

definition digitVal :: "char \<Rightarrow> nat" where
  "digitVal c = (of_char c :: nat) - 48"

fun parseUintLoop :: "nat \<Rightarrow> string \<Rightarrow> numerr + nat" where
  "parseUintLoop n [] = Inr n"
| "parseUintLoop n (c # cs) =
     (if \<not> isDigit c then Inl ErrSyntax
      else if n \<ge> (2 ^ 64 - 1) div 10 + 1 then Inl ErrRange
      else if n * 10 + digitVal c > 2 ^ intSize - 1 then Inl ErrRange
      else parseUintLoop (n * 10 + digitVal c) cs)"

definition ParseUint :: "string \<Rightarrow> numerr + nat" where
  "ParseUint s = (if s = [] then Inl ErrSyntax else parseUintLoop 0 s)"

definition ParseInt :: "string \<Rightarrow> numerr + int" where
  "ParseInt s =
     (if s = [] then Inl ErrSyntax
      else
        let neg = (hd s = CHR ''-'');
            ds = (if hd s = CHR ''+'' \<or> hd s = CHR ''-'' then tl s else s)
        in case ParseUint ds of
             Inl e \<Rightarrow> Inl e
           | Inr un \<Rightarrow>
               if \<not> neg \<and> un \<ge> 2 ^ (intSize - 1) then Inl ErrRange
               else if neg \<and> un > 2 ^ (intSize - 1) then Inl ErrRange
               else Inr (if neg then - int un else int un))"

definition Atoi :: "string \<Rightarrow> error + int" where
  "Atoi s = (case ParseInt s of
               Inl e \<Rightarrow> Inl (NumError ''Atoi'' s e)
             | Inr n \<Rightarrow> Inr n)"

section \<open>Interval-containment lookup\<close>

text \<open>
  The loop of \<open>FindProgramByStation\<close>: the programs in listed order, both bounds
  parsed before the comparison, every parse error returned at once.
\<close>

fun findProgramLoop :: "int \<Rightarrow> Prog list \<Rightarrow> error + Prog" where
  "findProgramLoop target [] = Inl (ErrorsNew ''CAN'T FIND THE PROGRAM'')"
| "findProgramLoop target (prog # progs) =
     (case Atoi (Ft prog) of
        Inl err \<Rightarrow> Inl err
      | Inr from \<Rightarrow>
          (case Atoi (To prog) of
             Inl err \<Rightarrow> Inl err
           | Inr to \<Rightarrow>
               if from \<le> target \<and> to > target then Inr prog
               else findProgramLoop target progs))"

text \<open>
  What \<open>FindProgramByStation\<close> does once the program list is fetched; \<open>datetime\<close>
  is the string \<open>util.Datetime(date)\<close>.
\<close>

definition findProgram :: "Prog list \<Rightarrow> string \<Rightarrow> error + Prog" where
  "findProgram progs datetime =
     (case Atoi datetime of
        Inl err \<Rightarrow> Inl err
      | Inr target \<Rightarrow> findProgramLoop target progs)"

section \<open>Exact-start lookup\<close>

text \<open>
  The two nested loops of \<open>GetProgramByStartTime\<close>. The inner loop stops at the
  first program whose \<open>Ft\<close> equals the formatted start (\<open>break\<close>); \<open>None\<close> says
  it ran to its end. The outer loop carries the pointer \<open>prog\<close> (\<open>None\<close> for
  \<open>nil\<close>) over every station of the snapshot: the \<open>break\<close> leaves the inner loop
  only.
\<close>

fun scanProgs :: "string \<Rightarrow> Prog list \<Rightarrow> Prog option" where
  "scanProgs ft [] = None"
| "scanProgs ft (p # ps) = (if Ft p = ft then Some p else scanProgs ft ps)"

fun scanStations :: "string \<Rightarrow> string \<Rightarrow> Station list \<Rightarrow> Prog option \<Rightarrow> Prog option" where
  "scanStations stationID ft [] prog = prog"
| "scanStations stationID ft (s # ss) prog =
     scanStations stationID ft ss
       (if ID s = stationID
        then (case scanProgs ft (Progs (StationProgs s)) of
                Some p \<Rightarrow> Some p
              | None \<Rightarrow> prog)
        else prog)"

section \<open>The client and its collaborators\<close>

text \<open>
  \<open>Params\<close> with the one field these functions set.
\<close>

record Params =
  query :: "string \<rightharpoonup> string"

text \<open>
  Every function and constant that the two source files call and do not define is a
  field of \<open>Client\<close>: the methods of the client (\<open>AreaID\<close>, \<open>newRequest\<close>, \<open>Do\<close>,
  \<open>CallWithAuthTokenHeader\<close>), the constants and helpers of the package (\<open>apiV2\<close>,
  \<open>apiV3\<close>, \<open>apiPath\<close>), of \<open>internal/util\<close> (\<open>ProgramsDate\<close>, \<open>Datetime\<close>), of
  \<open>internal\<close> (\<open>GetURIFromM3U8\<close>) and of the standard library (\<open>path.Join\<close>,
  \<open>ioutil.ReadAll\<close>, \<open>xml.Unmarshal\<close>). \<open>'t\<close> is \<open>time.Time\<close>, \<open>'r\<close> is
  \<open>http.Request\<close> (a pointer to it is an \<open>'r option\<close>, \<open>None\<close> for \<open>nil\<close>), \<open>'b\<close> is
  the body of a response. \<open>newRequest\<close> and \<open>GetURIFromM3U8\<close> return Go's pair of
  a value and an error (\<open>None\<close> for a \<open>nil\<close> error).
\<close>

record ('t, 'r, 'b) Client =
  AreaID :: string
  apiV2 :: string
  apiV3 :: string
  apiPath :: "string \<Rightarrow> string \<Rightarrow> string"
  pathJoin :: "string list \<Rightarrow> string"
  ProgramsDate :: "'t \<Rightarrow> string"
  Datetime :: "'t \<Rightarrow> string"
  newRequest :: "string \<Rightarrow> string \<Rightarrow> Params \<Rightarrow> 'r option \<times> error option"
  Do :: "'r option \<Rightarrow> error + 'b"
  CallWithAuthTokenHeader :: "'r option \<Rightarrow> error + 'b"
  ReadAll :: "'b \<Rightarrow> error + string"
  xmlUnmarshal :: "string \<Rightarrow> error + stationsData"
  GetURIFromM3U8 :: "'b \<Rightarrow> string \<times> error option"

text \<open>
  The calls a function makes on its collaborators, in the order it makes them; every
  function below returns them beside its result.
\<close>

datatype ('r, 'b) call =
    CallNewRequest string string Params
  | CallDo "'r option"
  | CallCallWithAuthTokenHeader "'r option"
  | CallReadAll 'b
  | CallGetURIFromM3U8 'b
  | CallClose 'b

definition stations :: "stationsData \<Rightarrow> Station list" where
  "stations d = XMLStations_Stations d"

text \<open>Indexing an empty slice at 0 is a run-time panic.\<close>

definition programs :: "stationsData \<Rightarrow> Prog list outcome" where
  "programs d =
     (case XMLStations_Stations d of
        [] \<Rightarrow> Panics ''runtime error: index out of range [0] with length 0''
      | s # _ \<Rightarrow> Returns (Progs (StationProgs s)))"

definition decodeStationsData ::
  "('t, 'r, 'b) Client \<Rightarrow> 'b \<Rightarrow> (error + stationsData) \<times> ('r, 'b) call list" where
  "decodeStationsData c input =
     (case ReadAll c input of
        Inl err \<Rightarrow> (Inl err, [CallReadAll input])
      | Inr b \<Rightarrow>
          (case xmlUnmarshal c b of
             Inl err \<Rightarrow> (Inl err, [CallReadAll input])
           | Inr d \<Rightarrow> (Inr d, [CallReadAll input])))"

definition GetProgramsByStation ::
  "('t, 'r, 'b) Client \<Rightarrow> string \<Rightarrow> 't \<Rightarrow> (error + Prog list) outcome \<times> ('r, 'b) call list" where
  "GetProgramsByStation c stationId date =
     (let apiEndpoint = pathJoin c [apiV3 c, ''program/station/date'', ProgramsDate c date,
                                    stationId @ ''.xml''];
          params = \<lparr>query = Map.empty\<rparr>;
          tr = [CallNewRequest ''GET'' apiEndpoint params]
      in case newRequest c ''GET'' apiEndpoint params of
           (req, Some err) \<Rightarrow> (Returns (Inl err), tr)
         | (req, None) \<Rightarrow>
             (case Do c req of
                Inl err \<Rightarrow> (Returns (Inl err), tr @ [CallDo req])
              | Inr body \<Rightarrow>
                  (case decodeStationsData c body of
                     (Inl err, tr') \<Rightarrow>
                       (Returns (Inl err), tr @ [CallDo req] @ tr' @ [CallClose body])
                   | (Inr d, tr') \<Rightarrow>
                       (case programs d of
                          Panics msg \<Rightarrow> Panics msg
                        | Returns progs \<Rightarrow> Returns (Inr progs),
                        tr @ [CallDo req] @ tr' @ [CallClose body]))))"

definition FindProgramByStation ::
  "('t, 'r, 'b) Client \<Rightarrow> string \<Rightarrow> 't \<Rightarrow> (error + Prog) outcome \<times> ('r, 'b) call list" where
  "FindProgramByStation c stationId date =
     (case GetProgramsByStation c stationId date of
        (Panics msg, tr) \<Rightarrow> (Panics msg, tr)
      | (Returns (Inl err), tr) \<Rightarrow> (Returns (Inl err), tr)
      | (Returns (Inr progs), tr) \<Rightarrow> (Returns (findProgram progs (Datetime c date)), tr))"

definition GetStations ::
  "('t, 'r, 'b) Client \<Rightarrow> 't \<Rightarrow> (error + Station list) \<times> ('r, 'b) call list" where
  "GetStations c date =
     (let apiEndpoint = pathJoin c [apiV3 c, ''program/date'', ProgramsDate c date,
                                    AreaID c @ ''.xml''];
          params = \<lparr>query = Map.empty\<rparr>;
          tr = [CallNewRequest ''GET'' apiEndpoint params]
      in case newRequest c ''GET'' apiEndpoint params of
           (req, Some err) \<Rightarrow> (Inl err, tr)
         | (req, None) \<Rightarrow>
             (case Do c req of
                Inl err \<Rightarrow> (Inl err, tr @ [CallDo req])
              | Inr body \<Rightarrow>
                  (case decodeStationsData c body of
                     (Inl err, tr') \<Rightarrow> (Inl err, tr @ [CallDo req] @ tr' @ [CallClose body])
                   | (Inr d, tr') \<Rightarrow>
                       (Inr (stations d), tr @ [CallDo req] @ tr' @ [CallClose body]))))"

definition GetProgramByStartTime ::
  "('t, 'r, 'b) Client \<Rightarrow> string \<Rightarrow> 't \<Rightarrow> (error + Prog) \<times> ('r, 'b) call list" where
  "GetProgramByStartTime c stationID start =
     (if stationID = [] then (Inl (ErrorsNew ''StationID is empty''), [])
      else
        case GetStations c start of
          (Inl err, tr) \<Rightarrow> (Inl err, tr)
        | (Inr sts, tr) \<Rightarrow>
            (case scanStations stationID (Datetime c start) sts None of
               None \<Rightarrow> (Inl ErrProgramNotFound, tr)
             | Some prog \<Rightarrow> (Inr prog, tr)))"

section \<open>Playlist resolver\<close>

text \<open>
  \<open>TimeshiftPlaylistM3U8\<close> returns Go's pair of the URI and the error. The error of
  \<open>newRequest\<close> is assigned and then overwritten by the next call without being
  read, so only the request of the pair is used.
\<close>

definition TimeshiftPlaylistM3U8 ::
  "('t, 'r, 'b) Client \<Rightarrow> string \<Rightarrow> 't \<Rightarrow> (string \<times> error option) \<times> ('r, 'b) call list" where
  "TimeshiftPlaylistM3U8 c stationID start =
     (case GetProgramByStartTime c stationID start of
        (Inl err, tr) \<Rightarrow> (([], Some err), tr)
      | (Inr prog, tr) \<Rightarrow>
          (let apiEndpoint = apiPath c (apiV2 c) ''ts/playlist.m3u8'';
               params = \<lparr>query = [''station_id'' \<mapsto> stationID, ''ft'' \<mapsto> Ft prog,
                                  ''to'' \<mapsto> To prog, ''l'' \<mapsto> ''15'']\<rparr>;
               req = fst (newRequest c ''POST'' apiEndpoint params);
               tr1 = tr @ [CallNewRequest ''POST'' apiEndpoint params]
           in case CallWithAuthTokenHeader c req of
                Inl err \<Rightarrow> (([], Some err), tr1 @ [CallCallWithAuthTokenHeader req])
              | Inr body \<Rightarrow>
                  (GetURIFromM3U8 c body,
                   tr1 @ [CallCallWithAuthTokenHeader req, CallGetURIFromM3U8 body,
                          CallClose body])))"

section \<open>Predicates of the properties\<close>

text \<open>
  \<open>parses p\<close>: both bounds of \<open>p\<close> are accepted by \<open>Atoi\<close>. \<open>covers t p\<close>: they are,
  and \<open>t\<close> lies in the half-open interval from \<open>Ft\<close> to \<open>To\<close>. \<open>wellFormed p\<close>: they
  are, and \<open>Ft < To\<close>. \<open>overlaps p q\<close>: the two half-open intervals share an instant.
\<close>

definition parses :: "Prog \<Rightarrow> bool" where
  "parses p = (case Atoi (Ft p) of Inl _ \<Rightarrow> False | Inr _ \<Rightarrow>
                  (case Atoi (To p) of Inl _ \<Rightarrow> False | Inr _ \<Rightarrow> True))"

definition covers :: "int \<Rightarrow> Prog \<Rightarrow> bool" where
  "covers t p = (case Atoi (Ft p) of Inl _ \<Rightarrow> False | Inr f \<Rightarrow>
                  (case Atoi (To p) of Inl _ \<Rightarrow> False | Inr e \<Rightarrow> f \<le> t \<and> t < e))"

definition wellFormed :: "Prog \<Rightarrow> bool" where
  "wellFormed p = (case Atoi (Ft p) of Inl _ \<Rightarrow> False | Inr f \<Rightarrow>
                  (case Atoi (To p) of Inl _ \<Rightarrow> False | Inr e \<Rightarrow> f < e))"

definition overlaps :: "Prog \<Rightarrow> Prog \<Rightarrow> bool" where
  "overlaps p q =
     (case (Atoi (Ft p), Atoi (To p), Atoi (Ft q), Atoi (To q)) of
        (Inr f, Inr e, Inr f', Inr e') \<Rightarrow> f < e' \<and> f' < e
      | _ \<Rightarrow> False)"

fun nonOverlapping :: "Prog list \<Rightarrow> bool" where
  "nonOverlapping [] = True"
| "nonOverlapping (p # ps) = (list_all (\<lambda>q. \<not> overlaps p q) ps \<and> nonOverlapping ps)"

section \<open>Concrete schedules and clients\<close>

definition mkProg :: "string \<Rightarrow> string \<Rightarrow> Prog" where
  "mkProg ft to = \<lparr>Ft = ft, To = to, Ftl = [], Tol = [], Dur = [], Title = [],
     SubTitle = [], Desc = [], Pfm = [], Info = [], URL = []\<rparr>"

definition scenarioB :: "Prog list" where
  "scenarioB = [mkProg ''100'' ''200'', mkProg ''200'' ''300'']"

definition morning :: "Prog list" where
  "morning = [mkProg ''20240101050000'' ''20240101060000'',
              mkProg ''20240101060000'' ''20240101070000'']"

definition mkStation :: "string \<Rightarrow> Prog list \<Rightarrow> Station" where
  "mkStation sid ps = \<lparr>ID = sid, Name = [], Scd = \<lparr>ScdProgs = \<lparr>Date = [], Progs = []\<rparr>\<rparr>,
     StationProgs = \<lparr>Date = [], Progs = ps\<rparr>\<rparr>"

definition stubClient :: "Station list \<Rightarrow> (string, string, string) Client" where
  "stubClient sts =
     \<lparr>AreaID = ''JP13'', apiV2 = ''v2'', apiV3 = ''v3'',
      apiPath = (\<lambda>v p. v @ ''/api/'' @ p),
      pathJoin = (\<lambda>xs. foldr (\<lambda>x acc. if acc = [] then x else x @ ''/'' @ acc) xs []),
      ProgramsDate = take 8,
      Datetime = (\<lambda>t. t),
      newRequest = (\<lambda>verb ep ps. (Some (verb @ '' '' @ ep), None)),
      Do = (\<lambda>req. case req of None \<Rightarrow> Inl (External ''nil request'')
                              | Some _ \<Rightarrow> Inr ''<radiko/>''),
      CallWithAuthTokenHeader =
        (\<lambda>req. case req of None \<Rightarrow> Inl (External ''nil request'')
                         | Some _ \<Rightarrow> Inr ''#EXTM3U''),
      ReadAll = (\<lambda>b. Inr b),
      xmlUnmarshal = (\<lambda>b. Inr \<lparr>XMLStations_Stations = sts\<rparr>),
      GetURIFromM3U8 = (\<lambda>b. (''https://radiko.jp/v2/api/ts/chunklist/a.m3u8'', None))\<rparr>"

definition brokenRequestClient :: "Station list \<Rightarrow> (string, string, string) Client" where
  "brokenRequestClient sts =
     (stubClient sts)\<lparr>newRequest :=
        (\<lambda>verb ep ps. if verb = ''POST'' then (None, Some (External ''newRequest failed''))
                       else (Some (verb @ '' '' @ ep), None))\<rparr>"

definition progA :: Prog where
  "progA = (mkProg ''20240101050000'' ''20240101060000'')\<lparr>Title := ''A''\<rparr>"

definition progB :: Prog where
  "progB = (mkProg ''20240101050000'' ''20240101060000'')\<lparr>Title := ''B''\<rparr>"

definition duplicateStations :: "Station list" where
  "duplicateStations = [mkStation ''JOAK'' [progA], mkStation ''JOAK'' [progB]]"

definition oneStation :: "Station list" where
  "oneStation = [mkStation ''JOAK'' morning]"

section \<open>The exact-start lookup in the words of the specification\<close>

text \<open>
  Follows the specification, not the source: of all programs of the stations that carry
  the identifier, in listing order, the first whose \<open>Ft\<close> equals the formatted start.
\<close>

definition specFirstListedMatch :: "string \<Rightarrow> string \<Rightarrow> Station list \<Rightarrow> Prog option" where
  "specFirstListedMatch stationID ft sts =
     List.find (\<lambda>p. Ft p = ft)
       (concat (map (\<lambda>s. Progs (StationProgs s)) (filter (\<lambda>s. ID s = stationID) sts)))"

section \<open>Properties of the interval-containment lookup\<close>

lemmas atoi_eval = Atoi_def ParseInt_def ParseUint_def isDigit_def digitVal_def intSize_def

lemma parsesE:
  assumes "parses p"
  obtains f e where "Atoi (Ft p) = Inr f" "Atoi (To p) = Inr e"
  using assms by (auto simp: parses_def split: sum.splits)

lemma wellFormed_parses: "wellFormed p \<Longrightarrow> parses p"
  by (auto simp: wellFormed_def parses_def split: sum.splits)

lemma covers_overlaps: "covers t p \<Longrightarrow> covers t q \<Longrightarrow> overlaps p q"
  by (auto simp: covers_def overlaps_def split: sum.splits)

lemma findProgramLoop_find:
  "list_all parses ps \<Longrightarrow>
   findProgramLoop t ps = (case List.find (covers t) ps of
        None \<Rightarrow> Inl (ErrorsNew ''CAN'T FIND THE PROGRAM'') | Some p \<Rightarrow> Inr p)"
proof (induction ps)
  case Nil
  show ?case by simp
next
  case (Cons p ps)
  from Cons.prems have "parses p" by simp
  then obtain f e where fe: "Atoi (Ft p) = Inr f" "Atoi (To p) = Inr e"
    by (rule parsesE)
  from Cons.prems have "list_all parses ps" by simp
  with Cons.IH fe show ?case
    by (auto simp: covers_def)
qed

lemma nonOverlapping_nth:
  "nonOverlapping ps \<Longrightarrow> i < j \<Longrightarrow> j < length ps \<Longrightarrow> \<not> overlaps (ps ! i) (ps ! j)"
proof (induction ps arbitrary: i j)
  case Nil
  then show ?case by simp
next
  case (Cons p ps)
  show ?case
  proof (cases i)
    case 0
    with Cons.prems obtain j' where j': "j = Suc j'" "j' < length ps"
      by (cases j) auto
    from Cons.prems have "\<forall>q\<in>set ps. \<not> overlaps p q"
      by (simp add: list_all_iff)
    with j' 0 show ?thesis by simp
  next
    case (Suc i')
    with Cons.prems obtain j' where j': "j = Suc j'" "i' < j'" "j' < length ps"
      by (cases j) auto
    from Cons.prems have "nonOverlapping ps" by simp
    from Cons.IH[OF this j'(2,3)] Suc j' show ?thesis by simp
  qed
qed

lemma covers_unique_index:
  assumes "nonOverlapping ps" "i < length ps" "j < length ps"
    "covers t (ps ! i)" "covers t (ps ! j)"
  shows "i = j"
proof (rule ccontr)
  assume "i \<noteq> j"
  then consider "i < j" | "j < i" by linarith
  then show False
  proof cases
    case 1
    from nonOverlapping_nth[OF assms(1) 1 assms(3)] covers_overlaps[OF assms(4,5)]
    show False by simp
  next
    case 2
    from nonOverlapping_nth[OF assms(1) 2 assms(2)] covers_overlaps[OF assms(5,4)]
    show False by simp
  qed
qed

lemma Atoi_error: "Atoi s = Inl e \<Longrightarrow> \<exists>k. e = NumError ''Atoi'' s k"
  by (auto simp: Atoi_def split: sum.splits)

lemma findProgramLoop_skip:
  "list_all (\<lambda>p. parses p \<and> \<not> covers t p) pre \<Longrightarrow>
   findProgramLoop t (pre @ ps) = findProgramLoop t ps"
proof (induction pre)
  case Nil
  show ?case by simp
next
  case (Cons p pre)
  from Cons.prems have "parses p" "\<not> covers t p" by simp_all
  then obtain f e where fe: "Atoi (Ft p) = Inr f" "Atoi (To p) = Inr e" "\<not> (f \<le> t \<and> t < e)"
    by (auto simp: parses_def covers_def split: sum.splits)
  from Cons.prems have "list_all (\<lambda>p. parses p \<and> \<not> covers t p) pre" by simp
  from Cons.IH[OF this] fe show ?case by auto
qed

lemma findProgramLoop_bad:
  "\<not> parses bad \<Longrightarrow>
   \<exists>k. findProgramLoop t (bad # rest) = Inl (NumError ''Atoi'' (Ft bad) k) \<or>
       findProgramLoop t (bad # rest) = Inl (NumError ''Atoi'' (To bad) k)"
  by (auto simp: parses_def split: sum.splits dest: Atoi_error)

text \<open>
  C3. When the target and every \<open>Ft\<close> and \<open>To\<close> of the list parse as integers, the
  interval-containment lookup returns the first program in listed order with
  \<open>Ft \<le> target < To\<close>, and the error \<open>CAN'T FIND THE PROGRAM\<close> when no program
  contains the target.
\<close>

theorem findProgram_first_match:
  assumes "Atoi datetime = Inr target" and "list_all parses progs"
  shows "findProgram progs datetime =
           (case List.find (covers target) progs of
              None \<Rightarrow> Inl (ErrorsNew ''CAN'T FIND THE PROGRAM'')
            | Some p \<Rightarrow> Inr p)"
  using assms by (simp add: findProgram_def findProgramLoop_find)

text \<open>
  The list \<open>[{Ft:100,To:200},{Ft:200,To:300}]\<close>: target 150 gives the first program,
  200 the second, 300 the not-found error.
\<close>

theorem findProgram_first_match_witness:
  "Atoi ''150'' = Inr 150 \<and> list_all parses scenarioB \<and>
   findProgram scenarioB ''150'' = Inr (mkProg ''100'' ''200'') \<and>
   findProgram scenarioB ''200'' = Inr (mkProg ''200'' ''300'') \<and>
   findProgram scenarioB ''300'' = Inl (ErrorsNew ''CAN'T FIND THE PROGRAM'')"
proof -
  have t1: "Atoi ''150'' = Inr 150" and t2: "Atoi ''200'' = Inr 200"
    and t3: "Atoi ''300'' = Inr 300"
    by (simp_all add: atoi_eval)
  have ps: "list_all parses scenarioB"
    by (simp add: scenarioB_def mkProg_def parses_def atoi_eval)
  have f1: "List.find (covers 150) scenarioB = Some (mkProg ''100'' ''200'')"
    and f2: "List.find (covers 200) scenarioB = Some (mkProg ''200'' ''300'')"
    and f3: "List.find (covers 300) scenarioB = None"
    by (simp_all add: scenarioB_def mkProg_def covers_def atoi_eval)
  from findProgram_first_match[OF t1 ps] findProgram_first_match[OF t2 ps] findProgram_first_match[OF t3 ps] f1 f2 f3 t1 ps
  show ?thesis by simp
qed

text \<open>
  C4. On a list of well-formed (\<open>Ft < To\<close>), pairwise non-overlapping programs, the
  lookup returns the program that contains the target, no other position of the list
  contains it, and a target outside every interval gives the not-found error.
\<close>

theorem findProgram_unique_interval:
  assumes "Atoi datetime = Inr target" and "list_all wellFormed progs"
    and "nonOverlapping progs"
  shows "(\<forall>i<length progs. covers target (progs ! i) \<longrightarrow>
            findProgram progs datetime = Inr (progs ! i) \<and>
            (\<forall>j<length progs. covers target (progs ! j) \<longrightarrow> j = i)) \<and>
         ((\<forall>p\<in>set progs. \<not> covers target p) \<longrightarrow>
            findProgram progs datetime = Inl (ErrorsNew ''CAN'T FIND THE PROGRAM''))"
proof -
  from assms(2) have ps: "list_all parses progs"
    by (auto simp: list_all_iff wellFormed_parses)
  have eq: "findProgram progs datetime =
           (case List.find (covers target) progs of
              None \<Rightarrow> Inl (ErrorsNew ''CAN'T FIND THE PROGRAM'')
            | Some p \<Rightarrow> Inr p)"
    using assms(1) ps by (simp add: findProgram_def findProgramLoop_find)
  have hit: "findProgram progs datetime = Inr (progs ! i) \<and>
            (\<forall>j<length progs. covers target (progs ! j) \<longrightarrow> j = i)"
    if i: "i < length progs" "covers target (progs ! i)" for i
  proof -
    have uniq: "\<forall>j<length progs. covers target (progs ! j) \<longrightarrow> j = i"
      using covers_unique_index[OF assms(3) _ i(1) _ i(2)] by blast
    from i have "\<exists>x\<in>set progs. covers target x" by auto
    then obtain x where x: "List.find (covers target) progs = Some x"
      by (cases "List.find (covers target) progs") (auto simp: find_None_iff)
    then obtain k where k: "k < length progs" "covers target (progs ! k)" "x = progs ! k"
      by (auto simp: find_Some_iff)
    with uniq have "k = i" by blast
    with k x eq have "findProgram progs datetime = Inr (progs ! i)" by simp
    with uniq show ?thesis by blast
  qed
  have miss: "findProgram progs datetime = Inl (ErrorsNew ''CAN'T FIND THE PROGRAM'')"
    if "\<forall>p\<in>set progs. \<not> covers target p"
  proof -
    from that have "List.find (covers target) progs = None"
      by (simp add: find_None_iff)
    with eq show ?thesis by simp
  qed
  from hit miss show ?thesis by blast
qed

theorem findProgram_unique_interval_witness:
  "Atoi ''20240101061500'' = Inr 20240101061500 \<and> list_all wellFormed morning \<and>
   nonOverlapping morning \<and> covers 20240101061500 (morning ! 1) \<and>
   findProgram morning ''20240101061500'' = Inr (morning ! 1) \<and>
   Atoi ''20240101070000'' = Inr 20240101070000 \<and>
   list_all (\<lambda>p. \<not> covers 20240101070000 p) morning \<and>
   findProgram morning ''20240101070000'' = Inl (ErrorsNew ''CAN'T FIND THE PROGRAM'')"
proof -
  have t1: "Atoi ''20240101061500'' = Inr 20240101061500"
    and t2: "Atoi ''20240101070000'' = Inr 20240101070000"
    by (simp_all add: atoi_eval)
  have wf: "list_all wellFormed morning"
    by (simp add: morning_def mkProg_def wellFormed_def atoi_eval)
  have no: "nonOverlapping morning"
    by (simp add: morning_def mkProg_def overlaps_def atoi_eval)
  have cv: "covers 20240101061500 (morning ! 1)"
    by (simp add: morning_def mkProg_def covers_def atoi_eval)
  have nc': "list_all (\<lambda>p. \<not> covers 20240101070000 p) morning"
    by (simp add: morning_def mkProg_def covers_def atoi_eval)
  then have nc: "\<forall>p\<in>set morning. \<not> covers 20240101070000 p"
    by (simp add: list_all_iff)
  have len: "1 < length morning" by (simp add: morning_def)
  from findProgram_unique_interval[OF t1 wf no] len cv
  have r1: "findProgram morning ''20240101061500'' = Inr (morning ! 1)" by blast
  from findProgram_unique_interval[OF t2 wf no] nc
  have r2: "findProgram morning ''20240101070000'' = Inl (ErrorsNew ''CAN'T FIND THE PROGRAM'')"
    by blast
  from t1 t2 wf no cv nc' r1 r2 show ?thesis by blast
qed

text \<open>
  C5. A target that does not parse fails with its parse error whatever the list is. An
  entry whose \<open>Ft\<close> or \<open>To\<close> does not parse, reached before any entry that contains
  the target, makes the lookup fail with the parse error of that bound, whatever
  follows it in the list.
\<close>

theorem findProgram_parse_error_first:
  "(Atoi datetime = Inl err \<longrightarrow>
      findProgram progs datetime = Inl err \<and> (\<exists>k. err = NumError ''Atoi'' datetime k)) \<and>
   (Atoi datetime = Inr target \<and> list_all (\<lambda>p. parses p \<and> \<not> covers target p) pre \<and>
    \<not> parses bad \<longrightarrow>
      (\<exists>k. findProgram (pre @ bad # rest) datetime = Inl (NumError ''Atoi'' (Ft bad) k) \<or>
           findProgram (pre @ bad # rest) datetime = Inl (NumError ''Atoi'' (To bad) k)))"
proof (intro conjI impI)
  assume "Atoi datetime = Inl err"
  then show "findProgram progs datetime = Inl err" by (simp add: findProgram_def)
next
  assume "Atoi datetime = Inl err"
  then show "\<exists>k. err = NumError ''Atoi'' datetime k" by (rule Atoi_error)
next
  assume a: "Atoi datetime = Inr target \<and> list_all (\<lambda>p. parses p \<and> \<not> covers target p) pre \<and>
    \<not> parses bad"
  then have "findProgram (pre @ bad # rest) datetime = findProgramLoop target (bad # rest)"
    by (simp add: findProgram_def findProgramLoop_skip)
  with findProgramLoop_bad[of bad target rest] a
  show "\<exists>k. findProgram (pre @ bad # rest) datetime = Inl (NumError ''Atoi'' (Ft bad) k) \<or>
           findProgram (pre @ bad # rest) datetime = Inl (NumError ''Atoi'' (To bad) k)"
    by simp
qed


theorem findProgram_parse_error_first_witness:
  "Atoi ''25o'' = Inl (NumError ''Atoi'' ''25o'' ErrSyntax) \<and>
   findProgram scenarioB ''25o'' = Inl (NumError ''Atoi'' ''25o'' ErrSyntax) \<and>
   Atoi ''250'' = Inr 250 \<and>
   list_all (\<lambda>p. parses p \<and> \<not> covers 250 p) [mkProg ''100'' ''200''] \<and>
   \<not> parses (mkProg ''2x0'' ''300'') \<and> covers 250 (mkProg ''200'' ''300'') \<and>
   findProgram ([mkProg ''100'' ''200''] @ mkProg ''2x0'' ''300'' # [mkProg ''200'' ''300'']) ''250''
     = Inl (NumError ''Atoi'' ''2x0'' ErrSyntax)"
proof -
  have t0: "Atoi ''25o'' = Inl (NumError ''Atoi'' ''25o'' ErrSyntax)"
    and t1: "Atoi ''250'' = Inr 250"
    by (simp_all add: atoi_eval)
  have pre: "list_all (\<lambda>p. parses p \<and> \<not> covers 250 p) [mkProg ''100'' ''200'']"
    by (simp add: mkProg_def parses_def covers_def atoi_eval)
  have bad: "\<not> parses (mkProg ''2x0'' ''300'')"
    by (simp add: mkProg_def parses_def atoi_eval)
  have later: "covers 250 (mkProg ''200'' ''300'')"
    by (simp add: mkProg_def covers_def atoi_eval)
  from findProgram_parse_error_first[of "''25o''" "NumError ''Atoi'' ''25o'' ErrSyntax" scenarioB] t0
  have r0: "findProgram scenarioB ''25o'' = Inl (NumError ''Atoi'' ''25o'' ErrSyntax)"
    by blast
  from findProgram_parse_error_first[of "''250''" _ _ 250 "[mkProg ''100'' ''200'']" "mkProg ''2x0'' ''300''"
      "[mkProg ''200'' ''300'']"] t1 pre bad
  have "\<exists>k. findProgram ([mkProg ''100'' ''200''] @ mkProg ''2x0'' ''300'' # [mkProg ''200'' ''300'']) ''250''
          = Inl (NumError ''Atoi'' (Ft (mkProg ''2x0'' ''300'')) k) \<or>
        findProgram ([mkProg ''100'' ''200''] @ mkProg ''2x0'' ''300'' # [mkProg ''200'' ''300'']) ''250''
          = Inl (NumError ''Atoi'' (To (mkProg ''2x0'' ''300'')) k)"
    by blast
  moreover have "findProgram ([mkProg ''100'' ''200''] @ mkProg ''2x0'' ''300'' # [mkProg ''200'' ''300'']) ''250''
     = Inl (NumError ''Atoi'' ''2x0'' ErrSyntax)"
    by (simp add: findProgram_def mkProg_def atoi_eval)
  ultimately show ?thesis using t0 t1 pre bad later r0 by blast
qed

section \<open>Properties of the exact-start lookup\<close>

lemma stub_GetStations:
  "GetStations (stubClient sts) t =
     (Inr sts, [CallNewRequest ''GET'' (''v3/program/date/'' @ take 8 t @ ''/JP13.xml'') \<lparr>query = Map.empty\<rparr>,
                CallDo (Some (''GET v3/program/date/'' @ take 8 t @ ''/JP13.xml'')),
                CallReadAll ''<radiko/>'', CallClose ''<radiko/>''])"
  by (simp add: GetStations_def stubClient_def decodeStationsData_def stations_def Let_def)

lemma broken_GetStations:
  "GetStations (brokenRequestClient sts) t = GetStations (stubClient sts) t"
  by (simp add: GetStations_def brokenRequestClient_def stubClient_def decodeStationsData_def stations_def Let_def)

lemma scanProgs_find: "scanProgs ft ps = List.find (\<lambda>p. Ft p = ft) ps"
  by (induction ps) auto

lemma scanProgs_None: "(\<forall>p\<in>set ps. Ft p \<noteq> ft) \<Longrightarrow> scanProgs ft ps = None"
  by (induction ps) auto

lemma scanStations_miss:
  "\<forall>s\<in>set sts. ID s = stationID \<longrightarrow> (\<forall>p\<in>set (Progs (StationProgs s)). Ft p \<noteq> ft) \<Longrightarrow>
   scanStations stationID ft sts prog = prog"
  by (induction sts arbitrary: prog) (auto simp: scanProgs_None)

lemma GetProgramByStartTime_scan:
  assumes "stationID \<noteq> []" and "GetStations c start = (Inr sts, tr)"
  shows "GetProgramByStartTime c stationID start =
           (case scanStations stationID (Datetime c start) sts None of
              None \<Rightarrow> (Inl ErrProgramNotFound, tr)
            | Some prog \<Rightarrow> (Inr prog, tr))"
  using assms by (simp add: GetProgramByStartTime_def)

lemma GetProgramByStartTime_miss:
  assumes "stationID \<noteq> []" and "GetStations c start = (Inr sts, tr)"
    and "\<forall>s\<in>set sts. ID s = stationID \<longrightarrow>
           (\<forall>p\<in>set (Progs (StationProgs s)). Ft p \<noteq> Datetime c start)"
  shows "GetProgramByStartTime c stationID start = (Inl ErrProgramNotFound, tr)"
  using assms by (simp add: GetProgramByStartTime_scan scanStations_miss)

lemma stub_lookup:
  "GetProgramByStartTime (stubClient oneStation) ''JOAK'' ''20240101050000'' =
     (Inr (mkProg ''20240101050000'' ''20240101060000''),
      snd (GetStations (stubClient oneStation) ''20240101050000''))"
  by (simp add: GetProgramByStartTime_def stub_GetStations)
     (simp add: stubClient_def oneStation_def mkStation_def morning_def mkProg_def)

text \<open>
  When no two stations of the snapshot share an identifier, the scan of the source and
  the first listed match agree.
\<close>

lemma scanStations_other:
  "\<forall>s\<in>set sts. ID s \<noteq> stationID \<Longrightarrow> scanStations stationID ft sts prog = prog"
  by (induction sts arbitrary: prog) auto

lemma scanStations_distinct:
  "distinct (map ID sts) \<Longrightarrow>
   scanStations stationID ft sts prog =
     (case List.find (\<lambda>s. ID s = stationID) sts of
        None \<Rightarrow> prog
      | Some s \<Rightarrow> (case scanProgs ft (Progs (StationProgs s)) of
                     Some p \<Rightarrow> Some p
                   | None \<Rightarrow> prog))"
proof (induction sts arbitrary: prog)
  case Nil
  show ?case by simp
next
  case (Cons s ss)
  show ?case
  proof (cases "ID s = stationID")
    case True
    with Cons.prems have "\<forall>x\<in>set ss. ID x \<noteq> stationID" by (metis distinct.simps(2) image_eqI list.simps(9) set_map)
    from scanStations_other[OF this] True show ?thesis by simp
  next
    case False
    from Cons.prems have "distinct (map ID ss)" by simp
    from Cons.IH[OF this] False show ?thesis by simp
  qed
qed

lemma filter_distinct_ID:
  "distinct (map ID sts) \<Longrightarrow>
   filter (\<lambda>s. ID s = stationID) sts =
     (case List.find (\<lambda>s. ID s = stationID) sts of None \<Rightarrow> [] | Some s \<Rightarrow> [s])"
proof (induction sts)
  case Nil
  show ?case by simp
next
  case (Cons s ss)
  show ?case
  proof (cases "ID s = stationID")
    case True
    with Cons.prems have "\<forall>x\<in>set ss. ID x \<noteq> stationID" by (metis distinct.simps(2) image_eqI list.simps(9) set_map)
    then have "filter (\<lambda>s. ID s = stationID) ss = []" by (simp add: filter_empty_conv)
    with True show ?thesis by simp
  next
    case False
    with Cons show ?thesis by simp
  qed
qed

lemma scanStations_unique:
  assumes "distinct (map ID sts)"
  shows "scanStations stationID ft sts None = specFirstListedMatch stationID ft sts"
  using assms
  by (simp add: scanStations_distinct specFirstListedMatch_def filter_distinct_ID scanProgs_find
           split: option.splits)


text \<open>
  C1. Two stations of the snapshot carry the identifier \<open>JOAK\<close>, and each lists a
  program that starts at the target. The lookup returns the program of the second
  station, the first such program in listing order is the one of the first station:
  the inner \<open>break\<close> does not end the scan of the stations, and a later station with a
  match overwrites the pointer.
\<close>

theorem GetProgramByStartTime_last_station_wins:
  "fst (GetProgramByStartTime (stubClient duplicateStations) ''JOAK'' ''20240101050000'') = Inr progB \<and>
   specFirstListedMatch ''JOAK'' ''20240101050000'' duplicateStations = Some progA \<and>
   progA \<noteq> progB"
proof -
  have "fst (GetProgramByStartTime (stubClient duplicateStations) ''JOAK'' ''20240101050000'') = Inr progB"
    by (simp add: GetProgramByStartTime_def stub_GetStations)
       (simp add: stubClient_def duplicateStations_def mkStation_def progA_def progB_def mkProg_def)
  moreover have "specFirstListedMatch ''JOAK'' ''20240101050000'' duplicateStations = Some progA"
    by (simp add: specFirstListedMatch_def duplicateStations_def mkStation_def progA_def progB_def mkProg_def)
  moreover have "progA \<noteq> progB"
    by (simp add: progA_def progB_def mkProg_def)
  ultimately show ?thesis by blast
qed

text \<open>
  C10. With a station identifier that is not empty and a snapshot that was fetched,
  the lookup returns \<open>ErrProgramNotFound\<close> when no station carries the identifier,
  and the same value when a station carries it and none of its programs starts at
  the formatted target.
\<close>

theorem GetProgramByStartTime_not_found_same:
  assumes "stationID \<noteq> []" and "GetStations c start = (Inr sts, tr)"
  shows "((\<forall>s\<in>set sts. ID s \<noteq> stationID) \<longrightarrow>
            fst (GetProgramByStartTime c stationID start) = Inl ErrProgramNotFound) \<and>
         ((\<exists>s\<in>set sts. ID s = stationID) \<and>
          (\<forall>s\<in>set sts. ID s = stationID \<longrightarrow>
             (\<forall>p\<in>set (Progs (StationProgs s)). Ft p \<noteq> Datetime c start)) \<longrightarrow>
            fst (GetProgramByStartTime c stationID start) = Inl ErrProgramNotFound)"
proof (intro conjI impI)
  assume "\<forall>s\<in>set sts. ID s \<noteq> stationID"
  then have "\<forall>s\<in>set sts. ID s = stationID \<longrightarrow>
           (\<forall>p\<in>set (Progs (StationProgs s)). Ft p \<noteq> Datetime c start)"
    by blast
  from GetProgramByStartTime_miss[OF assms this]
  show "fst (GetProgramByStartTime c stationID start) = Inl ErrProgramNotFound" by simp
next
  assume "(\<exists>s\<in>set sts. ID s = stationID) \<and>
          (\<forall>s\<in>set sts. ID s = stationID \<longrightarrow>
             (\<forall>p\<in>set (Progs (StationProgs s)). Ft p \<noteq> Datetime c start))"
  then have "\<forall>s\<in>set sts. ID s = stationID \<longrightarrow>
           (\<forall>p\<in>set (Progs (StationProgs s)). Ft p \<noteq> Datetime c start)"
    by blast
  from GetProgramByStartTime_miss[OF assms this]
  show "fst (GetProgramByStartTime c stationID start) = Inl ErrProgramNotFound" by simp
qed


theorem GetProgramByStartTime_not_found_same_witness:
  "''TBS'' \<noteq> [] \<and> ''JOAK'' \<noteq> [] \<and>
   fst (GetStations (stubClient [mkStation ''JOAK'' morning]) ''20240101050001'')
     = Inr [mkStation ''JOAK'' morning] \<and>
   list_all (\<lambda>s. ID s \<noteq> ''TBS'') [mkStation ''JOAK'' morning] \<and>
   list_ex (\<lambda>s. ID s = ''JOAK'') [mkStation ''JOAK'' morning] \<and>
   list_all (\<lambda>s. list_all (\<lambda>p. Ft p \<noteq> ''20240101050001'') (Progs (StationProgs s)))
     [mkStation ''JOAK'' morning] \<and>
   fst (GetProgramByStartTime (stubClient [mkStation ''JOAK'' morning]) ''TBS'' ''20240101050001'')
     = Inl ErrProgramNotFound \<and>
   fst (GetProgramByStartTime (stubClient [mkStation ''JOAK'' morning]) ''JOAK'' ''20240101050001'')
     = Inl ErrProgramNotFound"
proof -
  let ?sts = "[mkStation ''JOAK'' morning]"
  let ?c = "stubClient ?sts"
  obtain tr where g: "GetStations ?c ''20240101050001'' = (Inr ?sts, tr)"
    by (simp add: stub_GetStations)
  have dt: "Datetime ?c ''20240101050001'' = ''20240101050001''"
    by (simp add: stubClient_def)
  have n1: "''TBS'' \<noteq> []" and n2: "''JOAK'' \<noteq> []" by simp_all
  have a1: "list_all (\<lambda>s. ID s \<noteq> ''TBS'') ?sts"
    and a2: "list_ex (\<lambda>s. ID s = ''JOAK'') ?sts"
    and a3: "list_all (\<lambda>s. list_all (\<lambda>p. Ft p \<noteq> ''20240101050001'') (Progs (StationProgs s))) ?sts"
    by (simp_all add: mkStation_def morning_def mkProg_def)
  from a1 have b1: "\<forall>s\<in>set ?sts. ID s \<noteq> ''TBS''" by (simp add: list_all_iff)
  from a2 a3 have b2: "(\<exists>s\<in>set ?sts. ID s = ''JOAK'') \<and>
          (\<forall>s\<in>set ?sts. ID s = ''JOAK'' \<longrightarrow>
             (\<forall>p\<in>set (Progs (StationProgs s)). Ft p \<noteq> Datetime ?c ''20240101050001''))"
    unfolding dt by (simp add: list_all_iff list_ex_iff)
  from GetProgramByStartTime_not_found_same[OF n1 g] b1
  have r1: "fst (GetProgramByStartTime ?c ''TBS'' ''20240101050001'') = Inl ErrProgramNotFound"
    by blast
  from GetProgramByStartTime_not_found_same[OF n2 g] b2
  have r2: "fst (GetProgramByStartTime ?c ''JOAK'' ''20240101050001'') = Inl ErrProgramNotFound"
    by blast
  from g have g': "fst (GetStations ?c ''20240101050001'') = Inr ?sts" by simp
  from n1 n2 g' a1 a2 a3 r1 r2 show ?thesis by blast
qed

section \<open>Properties of the not-found errors\<close>

lemma FindProgramByStation_fetched:
  "GetProgramsByStation c stationId date = (Returns (Inr progs), tr) \<Longrightarrow>
   FindProgramByStation c stationId date = (Returns (findProgram progs (Datetime c date)), tr)"
  by (simp add: FindProgramByStation_def)










section \<open>Properties of the schedule fetch for one station\<close>

text \<open>
  C9. When the request is built, the call succeeds and the decoded response holds no
  station, \<open>GetProgramsByStation\<close> does not return: \<open>programs\<close> indexes the first
  station of an empty sequence and the call panics, and so does
  \<open>FindProgramByStation\<close>, which calls it first.
\<close>

theorem GetProgramsByStation_no_station_panics:
  assumes "newRequest c ''GET''
             (pathJoin c [apiV3 c, ''program/station/date'', ProgramsDate c date,
                          stationId @ ''.xml''])
             \<lparr>query = Map.empty\<rparr> = (req, None)"
    and "Do c req = Inr body"
    and "fst (decodeStationsData c body) = Inr d"
    and "XMLStations_Stations d = []"
  shows "fst (GetProgramsByStation c stationId date) =
           Panics ''runtime error: index out of range [0] with length 0'' \<and>
         fst (FindProgramByStation c stationId date) =
           Panics ''runtime error: index out of range [0] with length 0''"
proof -
  have p: "programs d = Panics ''runtime error: index out of range [0] with length 0''"
    using assms(4) by (simp add: programs_def)
  obtain tr' where dec: "decodeStationsData c body = (Inr d, tr')"
    using assms(3) by (cases "decodeStationsData c body") simp
  have g: "fst (GetProgramsByStation c stationId date) =
           Panics ''runtime error: index out of range [0] with length 0''"
    using assms(1,2) dec p by (simp add: GetProgramsByStation_def Let_def)
  then have "fst (FindProgramByStation c stationId date) =
           Panics ''runtime error: index out of range [0] with length 0''"
    by (cases "GetProgramsByStation c stationId date") (simp add: FindProgramByStation_def)
  with g show ?thesis by simp
qed


theorem GetProgramsByStation_no_station_panics_witness:
  "newRequest (stubClient []) ''GET''
     (pathJoin (stubClient []) [apiV3 (stubClient []), ''program/station/date'',
        ProgramsDate (stubClient []) ''20240101050000'', ''JOAK'' @ ''.xml''])
     \<lparr>query = Map.empty\<rparr> = (Some ''GET v3/program/station/date/20240101/JOAK.xml'', None) \<and>
   Do (stubClient []) (Some ''GET v3/program/station/date/20240101/JOAK.xml'') = Inr ''<radiko/>'' \<and>
   fst (decodeStationsData (stubClient []) ''<radiko/>'') = Inr \<lparr>XMLStations_Stations = []\<rparr> \<and>
   XMLStations_Stations \<lparr>XMLStations_Stations = []\<rparr> = [] \<and>
   fst (GetProgramsByStation (stubClient []) ''JOAK'' ''20240101050000'') =
     Panics ''runtime error: index out of range [0] with length 0'' \<and>
   fst (FindProgramByStation (stubClient []) ''JOAK'' ''20240101050000'') =
     Panics ''runtime error: index out of range [0] with length 0''"
proof -
  have h1: "newRequest (stubClient []) ''GET''
     (pathJoin (stubClient []) [apiV3 (stubClient []), ''program/station/date'',
        ProgramsDate (stubClient []) ''20240101050000'', ''JOAK'' @ ''.xml''])
     \<lparr>query = Map.empty\<rparr> = (Some ''GET v3/program/station/date/20240101/JOAK.xml'', None)"
    by (simp add: stubClient_def)
  have h2: "Do (stubClient []) (Some ''GET v3/program/station/date/20240101/JOAK.xml'') = Inr ''<radiko/>''"
    by (simp add: stubClient_def)
  have h3: "fst (decodeStationsData (stubClient []) ''<radiko/>'') = Inr \<lparr>XMLStations_Stations = []\<rparr>"
    by (simp add: stubClient_def decodeStationsData_def)
  have h4: "XMLStations_Stations \<lparr>XMLStations_Stations = []\<rparr> = []" by simp
  from GetProgramsByStation_no_station_panics[OF h1 h2 h3 h4] h1 h2 h3 h4 show ?thesis by blast
qed

section \<open>Properties of the playlist resolver\<close>

lemma GetProgramByStartTime_empty:
  "GetProgramByStartTime c [] start = (Inl (ErrorsNew ''StationID is empty''), [])"
  by (simp add: GetProgramByStartTime_def)

lemma GetProgramByStartTime_trace:
  "stationID \<noteq> [] \<Longrightarrow>
   snd (GetProgramByStartTime c stationID start) = snd (GetStations c start)"
  by (auto simp: GetProgramByStartTime_def split: prod.splits sum.splits option.splits)

lemma GetStations_trace_nonempty: "snd (GetStations c start) \<noteq> []"
  by (auto simp: GetStations_def Let_def split: prod.splits sum.splits option.splits)

lemma Timeshift_trace_prefix:
  "\<exists>rest. snd (TimeshiftPlaylistM3U8 c stationID start) =
           snd (GetProgramByStartTime c stationID start) @ rest"
  by (auto simp: TimeshiftPlaylistM3U8_def Let_def split: prod.splits sum.splits)

lemma Timeshift_lookup_error:
  "GetProgramByStartTime c stationID start = (Inl err, tr) \<Longrightarrow>
   TimeshiftPlaylistM3U8 c stationID start = (([], Some err), tr)"
  by (simp add: TimeshiftPlaylistM3U8_def)

lemma Timeshift_request_error_ignored:
  assumes "GetProgramByStartTime c stationID start = (Inr prog, tr)"
  shows "CallCallWithAuthTokenHeader
           (fst (newRequest c ''POST'' (apiPath c (apiV2 c) ''ts/playlist.m3u8'')
              \<lparr>query = [''station_id'' \<mapsto> stationID, ''ft'' \<mapsto> Ft prog,
                        ''to'' \<mapsto> To prog, ''l'' \<mapsto> ''15'']\<rparr>))
         \<in> set (snd (TimeshiftPlaylistM3U8 c stationID start))"
  using assms by (auto simp: TimeshiftPlaylistM3U8_def Let_def split: sum.splits)

lemma Timeshift_auth_error:
  assumes "GetProgramByStartTime c stationID start = (Inr prog, tr)"
    and "CallWithAuthTokenHeader c
           (fst (newRequest c ''POST'' (apiPath c (apiV2 c) ''ts/playlist.m3u8'')
              \<lparr>query = [''station_id'' \<mapsto> stationID, ''ft'' \<mapsto> Ft prog,
                        ''to'' \<mapsto> To prog, ''l'' \<mapsto> ''15'']\<rparr>)) = Inl err"
  shows "fst (TimeshiftPlaylistM3U8 c stationID start) = ([], Some err)"
  using assms by (simp add: TimeshiftPlaylistM3U8_def Let_def)

lemma GetStations_transport_error:
  assumes "newRequest c ''GET''
             (pathJoin c [apiV3 c, ''program/date'', ProgramsDate c start, AreaID c @ ''.xml''])
             \<lparr>query = Map.empty\<rparr> = (req, None)"
    and "Do c req = Inl err" and "stationID \<noteq> []"
  shows "TimeshiftPlaylistM3U8 c stationID start =
           (([], Some err),
            [CallNewRequest ''GET''
               (pathJoin c [apiV3 c, ''program/date'', ProgramsDate c start, AreaID c @ ''.xml''])
               \<lparr>query = Map.empty\<rparr>,
             CallDo req])"
  using assms
  by (simp add: TimeshiftPlaylistM3U8_def GetProgramByStartTime_def GetStations_def Let_def)

text \<open>
  C7. With an empty station identifier the resolver returns the error
  \<open>StationID is empty\<close> and an empty URI, and calls no collaborator at all. Any call
  it makes is made with a station identifier that is not empty, and then the calls of the
  schedule fetch come first.
\<close>

theorem TimeshiftPlaylistM3U8_empty_station:
  "TimeshiftPlaylistM3U8 c [] start = (([], Some (ErrorsNew ''StationID is empty'')), []) \<and>
   (snd (TimeshiftPlaylistM3U8 c stationID start) \<noteq> [] \<longrightarrow> stationID \<noteq> []) \<and>
   (stationID \<noteq> [] \<longrightarrow>
      (\<exists>rest. snd (TimeshiftPlaylistM3U8 c stationID start) = snd (GetStations c start) @ rest))"
proof (intro conjI impI)
  show e: "TimeshiftPlaylistM3U8 c [] start = (([], Some (ErrorsNew ''StationID is empty'')), [])"
    by (simp add: Timeshift_lookup_error GetProgramByStartTime_empty)
  show "stationID \<noteq> []" if "snd (TimeshiftPlaylistM3U8 c stationID start) \<noteq> []"
    using that by (auto simp: Timeshift_lookup_error GetProgramByStartTime_empty)
  show "\<exists>rest. snd (TimeshiftPlaylistM3U8 c stationID start) = snd (GetStations c start) @ rest"
    if "stationID \<noteq> []"
    using Timeshift_trace_prefix[of c stationID start] GetProgramByStartTime_trace[OF that, of c start]
    by simp
qed


theorem TimeshiftPlaylistM3U8_empty_station_witness:
  "snd (TimeshiftPlaylistM3U8 (stubClient oneStation) ''JOAK'' ''20240101050000'') \<noteq> [] \<and>
   ''JOAK'' \<noteq> [] \<and>
   TimeshiftPlaylistM3U8 (stubClient oneStation) [] ''20240101050000'' =
     (([], Some (ErrorsNew ''StationID is empty'')), []) \<and>
   (\<exists>rest. snd (TimeshiftPlaylistM3U8 (stubClient oneStation) ''JOAK'' ''20240101050000'') =
      snd (GetStations (stubClient oneStation) ''20240101050000'') @ rest)"
proof -
  have ne: "''JOAK'' \<noteq> []" by simp
  have tr: "snd (TimeshiftPlaylistM3U8 (stubClient oneStation) ''JOAK'' ''20240101050000'') \<noteq> []"
    by (simp add: TimeshiftPlaylistM3U8_def stub_lookup Let_def split: sum.splits)
  from TimeshiftPlaylistM3U8_empty_station[of "stubClient oneStation" "''20240101050000''" "''JOAK''"] ne tr
  show ?thesis by blast
qed



text \<open>
  C2. A client whose \<open>newRequest\<close> fails for the \<open>POST\<close> request: the resolver does
  not return that error. It goes on to \<open>CallWithAuthTokenHeader\<close> with the \<open>nil\<close>
  request and returns the error of that later call.
\<close>

theorem TimeshiftPlaylistM3U8_request_error_unchecked:
  "newRequest (brokenRequestClient oneStation) ''POST'' ''v2/api/ts/playlist.m3u8''
     \<lparr>query = [''station_id'' \<mapsto> ''JOAK'', ''ft'' \<mapsto> ''20240101050000'',
               ''to'' \<mapsto> ''20240101060000'', ''l'' \<mapsto> ''15'']\<rparr>
     = (None, Some (External ''newRequest failed'')) \<and>
   fst (TimeshiftPlaylistM3U8 (brokenRequestClient oneStation) ''JOAK'' ''20240101050000'')
     = ([], Some (External ''nil request'')) \<and>
   snd (TimeshiftPlaylistM3U8 (brokenRequestClient oneStation) ''JOAK'' ''20240101050000'')
     = snd (GetStations (brokenRequestClient oneStation) ''20240101050000'') @
       [CallNewRequest ''POST'' ''v2/api/ts/playlist.m3u8''
          \<lparr>query = [''station_id'' \<mapsto> ''JOAK'', ''ft'' \<mapsto> ''20240101050000'',
                    ''to'' \<mapsto> ''20240101060000'', ''l'' \<mapsto> ''15'']\<rparr>,
        CallCallWithAuthTokenHeader None]"
proof -
  have l: "GetProgramByStartTime (brokenRequestClient oneStation) ''JOAK'' ''20240101050000'' =
     (Inr (mkProg ''20240101050000'' ''20240101060000''),
      snd (GetStations (brokenRequestClient oneStation) ''20240101050000''))"
    by (simp add: GetProgramByStartTime_def broken_GetStations stub_GetStations)
       (simp add: brokenRequestClient_def stubClient_def oneStation_def mkStation_def
          morning_def mkProg_def)
  have n: "newRequest (brokenRequestClient oneStation) ''POST'' ep ps
             = (None, Some (External ''newRequest failed''))" for ep ps
    by (simp add: brokenRequestClient_def)
  have a: "CallWithAuthTokenHeader (brokenRequestClient oneStation) None
             = Inl (External ''nil request'')"
    by (simp add: brokenRequestClient_def stubClient_def)
  have ep: "apiPath (brokenRequestClient oneStation) (apiV2 (brokenRequestClient oneStation))
              ''ts/playlist.m3u8'' = ''v2/api/ts/playlist.m3u8''"
    by (simp add: brokenRequestClient_def stubClient_def)
  have ft: "Ft (mkProg ''20240101050000'' ''20240101060000'') = ''20240101050000''"
    and to: "To (mkProg ''20240101050000'' ''20240101060000'') = ''20240101060000''"
    by (simp_all add: mkProg_def)
  have "TimeshiftPlaylistM3U8 (brokenRequestClient oneStation) ''JOAK'' ''20240101050000''
     = (([], Some (External ''nil request'')),
        snd (GetStations (brokenRequestClient oneStation) ''20240101050000'') @
       [CallNewRequest ''POST'' ''v2/api/ts/playlist.m3u8''
          \<lparr>query = [''station_id'' \<mapsto> ''JOAK'', ''ft'' \<mapsto> ''20240101050000'',
                    ''to'' \<mapsto> ''20240101060000'', ''l'' \<mapsto> ''15'']\<rparr>,
        CallCallWithAuthTokenHeader None])"
    unfolding TimeshiftPlaylistM3U8_def l by (simp add: Let_def n a ep ft to)
  with n show ?thesis by simp
qed

end
